theory Spec2Isabelle
  imports Complex_Main
begin

section \<open>VoicePay Arc: the voice-command-to-transaction pipeline\<close>

text \<open>
  A shallow embedding of the TypeScript sources: the command history and recording state
  machine of \<^verbatim>\<open>lib/hooks/useVoice.ts\<close>, the validation utilities of
  \<^verbatim>\<open>lib/api/validation\<close>, the intent extraction of \<^verbatim>\<open>pages/api/nlp.ts\<close>,
  the retry helper of \<^verbatim>\<open>lib/utils.ts\<close> and the send path of
  \<^verbatim>\<open>pages/index.tsx\<close>.

  Modelling conventions.
  \<^item> A JavaScript string is a \<open>string\<close>: a list of code units below 256.
  \<^item> A JavaScript number is a \<open>jsnum\<close>: \<open>NaN\<close>, the two infinities, or an exact
    rational. Comparisons are exact on doubles; sums and products are taken without the
    rounding of IEEE arithmetic.
  \<^item> \<open>undefined\<close> and \<open>null\<close> of an optional field are \<open>None\<close>.
  \<^item> \<open>new Date()\<close> is a parameter \<open>now\<close> (milliseconds).
\<close>

subsection \<open>JavaScript numbers\<close>

datatype jsnum = NaN | NegInf | Num rat | PosInf






text \<open>Truthiness of a number: every number but \<open>NaN\<close> and zero.\<close>

definition num_truthy :: "jsnum \<Rightarrow> bool" where
  "num_truthy x = (x \<noteq> NaN \<and> x \<noteq> Num 0)"

subsection \<open>The data model (\<^verbatim>\<open>lib/blockchain/types.ts\<close>)\<close>

record Participant =
  p_identifier :: string
  p_amount :: "jsnum option"
  p_address :: "string option"

text \<open>
  \<^verbatim>\<open>PaymentIntent\<close>. Its declared field types are \<open>'a = string\<close> (the action),
  \<open>'r = string\<close> (the recipient) and \<open>'p = Participant list\<close>; the intent built from an AI
  response carries unchecked JSON values in these fields, hence the type parameters.
\<close>

record ('a, 'r, 'p) PaymentIntent =
  action :: 'a
  amount :: jsnum
  currency :: string
  recipient :: "'r option"
  participants :: "'p option"
  confirmationRequired :: bool
  originalCommand :: "string option"
  parsedAt :: nat
  isValid :: bool
  validationErrors :: "string list option"

type_synonym Intent = "(string, string, Participant list) PaymentIntent"

text \<open>\<^verbatim>\<open>VoiceCommand\<close> of \<^verbatim>\<open>useVoice.ts\<close>; a failed command carries a null intent.\<close>

record VoiceCommand =
  vc_id :: string
  vc_transcript :: string
  vc_intent :: "Intent option"
  vc_timestamp :: nat
  vc_success :: bool

subsection \<open>Command history (\<^verbatim>\<open>useVoice.ts\<close>)\<close>

text \<open>
  Both the success and the failure path of \<^verbatim>\<open>processAudioBlob\<close> update the history by
  \<^verbatim>\<open>setCommandHistory((prev) => [cmd, ...prev].slice(0, 10))\<close>.
\<close>

definition appendHistory :: "VoiceCommand \<Rightarrow> VoiceCommand list \<Rightarrow> VoiceCommand list" where
  "appendHistory cmd prev = take 10 (cmd # prev)"

text \<open>\<^verbatim>\<open>clearHistory\<close>: \<^verbatim>\<open>setCommandHistory([])\<close>.\<close>

definition clearHistory :: "VoiceCommand list \<Rightarrow> VoiceCommand list" where
  "clearHistory prev = []"

text \<open>A sequence of appends, the first command of the list appended first.\<close>

fun appendAll :: "VoiceCommand list \<Rightarrow> VoiceCommand list \<Rightarrow> VoiceCommand list" where
  "appendAll [] h = h"
| "appendAll (c # cs) h = appendAll cs (appendHistory c h)"

text \<open>A numbered sample command, successful when its number is even.\<close>

definition sampleCommand :: "nat \<Rightarrow> VoiceCommand" where
  "sampleCommand n =
     \<lparr>vc_id = replicate n (CHR ''i''), vc_transcript = ''Send 50 USDC to Alice'',
      vc_intent = None, vc_timestamp = n, vc_success = even n\<rparr>"

subsection \<open>Strings and the regular expressions of the sources\<close>

text \<open>\<^verbatim>\<open>\d\<close>\<close>

definition isDigit :: "char \<Rightarrow> bool" where
  "isDigit c = (c \<in> set ''0123456789'')"

text \<open>\<^verbatim>\<open>\w\<close>\<close>

definition isWordChar :: "char \<Rightarrow> bool" where
  "isWordChar c =
     (c \<in> set ''abcdefghijklmnopqrstuvwxyzABCDEFGHIJKLMNOPQRSTUVWXYZ0123456789_'')"

text \<open>\<^verbatim>\<open>[a-fA-F0-9]\<close>\<close>

definition isHexChar :: "char \<Rightarrow> bool" where
  "isHexChar c = (c \<in> set ''abcdefABCDEF0123456789'')"

text \<open>
  \<^verbatim>\<open>\s\<close>, and the white space that \<^verbatim>\<open>trim\<close> and \<^verbatim>\<open>parseFloat\<close> skip: tab, line feed,
  vertical tab, form feed, carriage return, space, no-break space.
\<close>

definition isSpace :: "char \<Rightarrow> bool" where
  "isSpace c =
     (c \<in> set [CHR 0x09, CHR 0x0A, CHR 0x0B, CHR 0x0C, CHR 0x0D, CHR 0x20, CHR 0xA0])"


text \<open>\<^verbatim>\<open>toLowerCase\<close>, one code unit at a time: A to Z, and the capital letters of Latin-1.\<close>

definition toLowerChar :: "char \<Rightarrow> char" where
  "toLowerChar c =
     (let n = (of_char c :: nat)
      in if (65 \<le> n \<and> n \<le> 90) \<or> (192 \<le> n \<and> n \<le> 222 \<and> n \<noteq> 215)
         then char_of (n + 32) else c)"

definition toLowerCase :: "string \<Rightarrow> string" where
  "toLowerCase s = map toLowerChar s"

text \<open>\<^verbatim>\<open>s.startsWith(p)\<close>\<close>

definition startsWith :: "string \<Rightarrow> string \<Rightarrow> bool" where
  "startsWith s p = (take (length p) s = p)"

text \<open>\<^verbatim>\<open>s.includes(sub)\<close>\<close>

fun str_includes :: "string \<Rightarrow> string \<Rightarrow> bool" where
  "str_includes [] sub = (sub = [])"
| "str_includes (c # cs) sub = (startsWith (c # cs) sub \<or> str_includes cs sub)"

text \<open>\<^verbatim>\<open>s.trim()\<close>\<close>

definition trim :: "string \<Rightarrow> string" where
  "trim s = rev (dropWhile isSpace (rev (dropWhile isSpace s)))"

text \<open>The value of a string of decimal digits.\<close>

definition digitVal :: "char \<Rightarrow> nat" where
  "digitVal c = (of_char c :: nat) - 48"

definition digitsValue :: "string \<Rightarrow> 'a::semiring_1" where
  "digitsValue ds = foldl (\<lambda>a c. 10 * a + of_nat (digitVal c)) 0 ds"

text \<open>
  The exponent part \<^verbatim>\<open>[eE][+-]?\d+\<close> at the head of a string, if there is one: the power
  of ten it stands for.
\<close>

definition exponentPart :: "string \<Rightarrow> rat" where
  "exponentPart s =
     (case s of
        [] \<Rightarrow> 1
      | c # r \<Rightarrow>
          if c = CHR ''e'' \<or> c = CHR ''E'' then
            (case r of
               [] \<Rightarrow> 1
             | d # r' \<Rightarrow>
                 if d = CHR ''-'' then
                   (if takeWhile isDigit r' = [] then 1
                    else 1 / 10 ^ digitsValue (takeWhile isDigit r'))
                 else if d = CHR ''+'' then
                   (if takeWhile isDigit r' = [] then 1
                    else 10 ^ digitsValue (takeWhile isDigit r'))
                 else
                   (if takeWhile isDigit r = [] then 1
                    else 10 ^ digitsValue (takeWhile isDigit r)))
          else 1)"

text \<open>
  \<^verbatim>\<open>parseFloat(s)\<close>: skip leading white space, read the longest prefix that is a decimal
  literal (sign, \<^verbatim>\<open>Infinity\<close> or digits with an optional fraction and exponent), \<open>NaN\<close> when
  there is none. The value is exact: neither rounded to a double nor overflowing.
\<close>

definition parseUnsigned :: "string \<Rightarrow> jsnum" where
  "parseUnsigned s =
     (if startsWith s ''Infinity'' then PosInf
      else
        let ip = takeWhile isDigit s; r1 = dropWhile isDigit s;
            dot = (r1 \<noteq> [] \<and> hd r1 = CHR ''.'');
            fp = (if dot then takeWhile isDigit (tl r1) else []);
            r2 = (if dot then dropWhile isDigit (tl r1) else r1)
        in if ip = [] \<and> fp = [] then NaN
           else Num (digitsValue (ip @ fp) / 10 ^ length fp * exponentPart r2))"

definition js_neg :: "jsnum \<Rightarrow> jsnum" where
  "js_neg x = (case x of NaN \<Rightarrow> NaN | NegInf \<Rightarrow> PosInf | PosInf \<Rightarrow> NegInf | Num r \<Rightarrow> Num (- r))"

definition parseFloat :: "string \<Rightarrow> jsnum" where
  "parseFloat input =
     (case dropWhile isSpace input of
        [] \<Rightarrow> NaN
      | c # r \<Rightarrow>
          if c = CHR ''-'' then js_neg (parseUnsigned r)
          else if c = CHR ''+'' then parseUnsigned r
          else parseUnsigned (c # r))"

text \<open>
  Group 1 of the first match of \<^verbatim>\<open>/(\d+(?:\.\d+)?)\s*(?:usdc|dollars?|usd)?/i\<close> (and of
  \<^verbatim>\<open>/(\d+(?:\.\d+)?)/\<close>): the match starts at the first digit of the text, takes the whole
  run of digits, and a fraction when a dot and at least one digit follow. What comes after
  group 1 is optional and does not change it.
\<close>

definition matchAmount :: "string \<Rightarrow> string option" where
  "matchAmount text =
     (let rest = dropWhile (\<lambda>c. \<not> isDigit c) text
      in if rest = [] then None
         else
           let ip = takeWhile isDigit rest; r1 = dropWhile isDigit rest
           in if r1 \<noteq> [] \<and> hd r1 = CHR ''.'' \<and> takeWhile isDigit (tl r1) \<noteq> []
              then Some (ip @ ''.'' @ takeWhile isDigit (tl r1))
              else Some ip)"

text \<open>
  A match of \<^verbatim>\<open>/(?:k1|k2)\s+(\w+)/i\<close> at the head of a string: one of the keywords
  (letters compared without case), white space, then a run of word characters, all of it
  taken. The result is the matched text and group 1.
\<close>

definition matchKeywordAt :: "string list \<Rightarrow> string \<Rightarrow> (string \<times> string) option" where
  "matchKeywordAt kws s =
     (case filter (\<lambda>k. toLowerCase (take (length k) s) = k) kws of
        [] \<Rightarrow> None
      | k # _ \<Rightarrow>
          let r = drop (length k) s; ws = takeWhile isSpace r;
              w = takeWhile isWordChar (dropWhile isSpace r)
          in if ws = [] \<or> w = [] then None
             else Some (take (length k) s @ ws @ w, w))"

text \<open>The first match in a string (\<^verbatim>\<open>text.match(re)\<close> without the \<^verbatim>\<open>g\<close> flag).\<close>

fun matchKeyword :: "string list \<Rightarrow> string \<Rightarrow> (string \<times> string) option" where
  "matchKeyword kws [] = None"
| "matchKeyword kws (c # cs) =
     (case matchKeywordAt kws (c # cs) of
        Some m \<Rightarrow> Some m
      | None \<Rightarrow> matchKeyword kws cs)"

text \<open>
  All matches, left to right (\<^verbatim>\<open>text.match(re)\<close> with the \<^verbatim>\<open>g\<close> flag): the search
  resumes after the end of each match, so \<open>skip\<close> counts the characters still inside the
  last match. The result is the list of matched texts.
\<close>

fun matchAllKeyword :: "string list \<Rightarrow> nat \<Rightarrow> string \<Rightarrow> string list" where
  "matchAllKeyword kws skip [] = []"
| "matchAllKeyword kws (Suc skip) (c # cs) = matchAllKeyword kws skip cs"
| "matchAllKeyword kws 0 (c # cs) =
     (case matchKeywordAt kws (c # cs) of
        Some (m, w) \<Rightarrow> m # matchAllKeyword kws (length m - 1) cs
      | None \<Rightarrow> matchAllKeyword kws 0 cs)"

text \<open>\<^verbatim>\<open>match.replace(/^(with|and)\s+/i, "")\<close>\<close>

definition stripKeyword :: "string list \<Rightarrow> string \<Rightarrow> string" where
  "stripKeyword kws s =
     (case filter (\<lambda>k. toLowerCase (take (length k) s) = k) kws of
        [] \<Rightarrow> s
      | k # _ \<Rightarrow>
          if takeWhile isSpace (drop (length k) s) = [] then s
          else dropWhile isSpace (drop (length k) s))"

text \<open>The first match of \<^verbatim>\<open>/0x[a-fA-F0-9]{40}/\<close>.\<close>

fun matchAddress :: "string \<Rightarrow> string option" where
  "matchAddress [] = None"
| "matchAddress (c # cs) =
     (if startsWith (c # cs) ''0x'' \<and> 40 \<le> length (takeWhile isHexChar (drop 2 (c # cs)))
      then Some (take 42 (c # cs))
      else matchAddress cs)"

subsection \<open>The fallback extractor (\<^verbatim>\<open>pages/api/nlp.ts\<close>)\<close>

definition extractIntentFallback :: "nat \<Rightarrow> string \<Rightarrow> Intent" where
  "extractIntentFallback now text =
     (let lowerText = toLowerCase text
      in if str_includes lowerText ''balance'' \<or> str_includes lowerText ''how much'' then
           \<lparr>action = ''check_balance'', amount = Num 0, currency = ''USDC'', recipient = None,
            participants = None, confirmationRequired = False, originalCommand = Some text,
            parsedAt = now, isValid = True, validationErrors = None\<rparr>
         else if str_includes lowerText ''history'' \<or> str_includes lowerText ''transaction'' then
           \<lparr>action = ''view_history'', amount = Num 0, currency = ''USDC'', recipient = None,
            participants = None, confirmationRequired = False, originalCommand = Some text,
            parsedAt = now, isValid = True, validationErrors = None\<rparr>
         else if str_includes lowerText ''cancel'' then
           \<lparr>action = ''cancel'', amount = Num 0, currency = ''USDC'', recipient = None,
            participants = None, confirmationRequired = True, originalCommand = Some text,
            parsedAt = now, isValid = True, validationErrors = None\<rparr>
         else
           let amount = (case matchAmount text of Some g \<Rightarrow> parseFloat g | None \<Rightarrow> Num 0)
           in if str_includes lowerText ''split'' then
                let participants =
                      map (\<lambda>m. \<lparr>p_identifier = trim (stripKeyword [''with'', ''and''] m),
                                 p_amount = None, p_address = None\<rparr>)
                          (matchAllKeyword [''with'', ''and''] 0 text)
                in \<lparr>action = ''split'', amount = amount, currency = ''USDC'', recipient = None,
                    participants = (if 0 < length participants then Some participants else None),
                    confirmationRequired = True, originalCommand = Some text,
                    parsedAt = now, isValid = True, validationErrors = None\<rparr>
              else
                let recipient =
                      (case matchAddress text of
                         Some a \<Rightarrow> Some a
                       | None \<Rightarrow>
                           (case matchKeyword [''to'', ''for''] text of
                              Some (m, w) \<Rightarrow> Some w
                            | None \<Rightarrow> None))
                in if str_includes lowerText ''send'' \<or> str_includes lowerText ''transfer''
                      \<or> str_includes lowerText ''pay'' then
                     \<lparr>action = (if str_includes lowerText ''bill'' then ''pay_bill'' else ''send''),
                      amount = amount, currency = ''USDC'', recipient = recipient,
                      participants = None, confirmationRequired = True,
                      originalCommand = Some text, parsedAt = now, isValid = True,
                      validationErrors = None\<rparr>
                   else
                     \<lparr>action = ''send'', amount = amount, currency = ''USDC'',
                      recipient = recipient, participants = None, confirmationRequired = True,
                      originalCommand = Some text, parsedAt = now, isValid = True,
                      validationErrors = None\<rparr>)"

subsection \<open>The environment: library functions and configuration\<close>


text \<open>\<^verbatim>\<open>v || d\<close> on an optional string: \<open>d\<close> when \<open>v\<close> is undefined or empty.\<close>

definition strOr :: "string option \<Rightarrow> string \<Rightarrow> string" where
  "strOr v d = (case v of None \<Rightarrow> d | Some s \<Rightarrow> if s = [] then d else s)"



subsection \<open>Address validation (\<^verbatim>\<open>lib/api/validation\<close>)\<close>





subsection \<open>Amount validation\<close>





subsection \<open>Payment intent validation\<close>










subsection \<open>Balance validation\<close>



subsection \<open>A concrete environment for examples\<close>

definition digitChar :: "nat \<Rightarrow> char" where
  "digitChar d = char_of (48 + d)"

text \<open>The decimal digits of a natural number.\<close>

function showNat :: "nat \<Rightarrow> string" where
  "showNat n = (if n < 10 then [digitChar n] else showNat (n div 10) @ [digitChar (n mod 10)])"
  by pat_completeness auto
termination
  by (relation "measure id") auto






subsection \<open>The ledger service (\<^verbatim>\<open>lib/blockchain/arc.ts\<close>)\<close>

text \<open>A thrown \<^verbatim>\<open>Error\<close>: its message and, for ledger errors, its code.\<close>

record JsError =
  message :: string
  code :: "string option"

definition mkError :: "string \<Rightarrow> JsError" where
  "mkError m = \<lparr>message = m, code = None\<rparr>"



record TransactionResponse =
  tr_hash :: string
  tr_amount :: string
  tr_to :: string
  tr_from :: string




record AmountCheck =
  ac_valid :: bool
  ac_error :: "string option"


record WalletBalance =
  usdc :: string
  native :: string
  lastUpdated :: nat

text \<open>
  The service object held by the page, an \<^verbatim>\<open>ArcService\<close> or a \<^verbatim>\<open>DemoArcService\<close>:
  the four methods the page calls. A thrown error is its message.
\<close>

record Service =
  svc_validateAmount :: "string \<Rightarrow> AmountCheck"
  svc_sendUSDC :: "string \<Rightarrow> string \<Rightarrow> string + TransactionResponse"
  svc_waitForTransaction :: "string \<Rightarrow> nat \<Rightarrow> string option"
  svc_getWalletBalance :: "nat \<Rightarrow> string + WalletBalance"


subsection \<open>The send path of the page (\<^verbatim>\<open>pages/index.tsx\<close>)\<close>

datatype TxStatus = pending | confirming | confirmed | failed | cancelled

record Transaction =
  tx_id :: string
  tx_hash :: string
  tx_from :: string
  tx_to :: string
  tx_amount :: string
  tx_status :: TxStatus
  tx_timestamp :: nat
  tx_fee :: string
  tx_voiceCommand :: "string option"
  tx_intent :: "Intent option"

record Loading =
  l_balance :: bool
  l_transactions :: bool
  l_transaction :: bool

text \<open>The state of the page as the closure of a render sees it.\<close>

record Home =
  balance :: WalletBalance
  transactions :: "Transaction list"
  walletAddress :: string
  isLoading :: Loading
  errorMsg :: string
  successMsg :: string
  currentCommand :: "(string \<times> Intent) option"
  showConfirmation :: bool
  arcService :: "Service option"








text \<open>A send intent for the amount \<open>a\<close> to a fixed address.\<close>

definition sendIntent :: "rat \<Rightarrow> Intent" where
  "sendIntent a =
     \<lparr>action = ''send'', amount = Num a, currency = ''USDC'',
      recipient = Some ''0x1234567890123456789012345678901234567890'', participants = None,
      confirmationRequired = True, originalCommand = None, parsedAt = 0, isValid = True,
      validationErrors = None\<rparr>"

subsection \<open>Retry with backoff (\<^verbatim>\<open>lib/utils.ts\<close>)\<close>








subsection \<open>JSON values and the intent built from an AI response (\<^verbatim>\<open>pages/api/nlp.ts\<close>)\<close>

datatype json =
  JNull
| JBool bool
| JNum jsnum
| JStr string
| JArr "json list"
| JObj "(string \<times> json) list"

text \<open>Truthiness of a value.\<close>

fun truthy :: "json \<Rightarrow> bool" where
  "truthy JNull = False"
| "truthy (JBool b) = b"
| "truthy (JNum n) = num_truthy n"
| "truthy (JStr s) = (s \<noteq> [])"
| "truthy (JArr xs) = True"
| "truthy (JObj kvs) = True"

text \<open>
  The property access \<^verbatim>\<open>data.name\<close> on a value other than null, for the names read by
  the sources: \<open>None\<close> is \<^verbatim>\<open>undefined\<close>, which is also what a value that is not an
  object gives.
\<close>

fun field :: "json \<Rightarrow> string \<Rightarrow> json option" where
  "field (JObj kvs) name = map_of kvs name"
| "field _ name = None"

text \<open>
  \<^verbatim>\<open>parseFloat(v)\<close> on a value: \<^verbatim>\<open>parseFloat\<close> reads the string of its argument. The
  string of a number reads back as that number; the strings of null, of a boolean and of an
  object have no numeric prefix; the string of an array joins the strings of its elements
  with commas, null being the empty string, so that it reads as its first element does.
\<close>

fun parseFloatValue :: "json \<Rightarrow> jsnum" where
  "parseFloatValue (JNum n) = n"
| "parseFloatValue (JStr s) = parseFloat s"
| "parseFloatValue (JArr (x # xs)) = parseFloatValue x"
| "parseFloatValue (JArr []) = NaN"
| "parseFloatValue JNull = NaN"
| "parseFloatValue (JBool b) = NaN"
| "parseFloatValue (JObj kvs) = NaN"

text \<open>\<^verbatim>\<open>parseFloat\<close> of a property that may be undefined.\<close>

definition parseFloatField :: "json option \<Rightarrow> jsnum" where
  "parseFloatField v = (case v of None \<Rightarrow> NaN | Some x \<Rightarrow> parseFloatValue x)"

text \<open>\<^verbatim>\<open>v || undefined\<close> on a property.\<close>

definition truthyOrUndefined :: "json option \<Rightarrow> json option" where
  "truthyOrUndefined v = (case v of None \<Rightarrow> None | Some x \<Rightarrow> if truthy x then Some x else None)"

type_synonym RawIntent = "(json, json, json) PaymentIntent"

text \<open>
  The construction of the intent from the parsed response \<^verbatim>\<open>intentData\<close> in
  \<^verbatim>\<open>extractIntent\<close>. Reading a property of null throws a TypeError.
\<close>

definition constructIntent :: "nat \<Rightarrow> string \<Rightarrow> json \<Rightarrow> JsError + RawIntent" where
  "constructIntent now text intentData =
     (if intentData = JNull then Inl (mkError ''Cannot read properties of null'')
      else
        Inr \<lparr>action = (case truthyOrUndefined (field intentData ''action'') of
                          Some a \<Rightarrow> a
                        | None \<Rightarrow> JStr ''send''),
             amount = (let a = parseFloatField (field intentData ''amount'')
                       in if num_truthy a then a else Num 0),
             currency = ''USDC'',
             recipient = truthyOrUndefined (field intentData ''recipient''),
             participants = truthyOrUndefined (field intentData ''participants''),
             confirmationRequired = (field intentData ''confirmationRequired'' \<noteq> Some (JBool False)),
             originalCommand = Some text,
             parsedAt = now,
             isValid = True,
             validationErrors = Some []\<rparr>)"

text \<open>
  \<^verbatim>\<open>extractIntent(text)\<close>. The call of the AI collaborator and the parsing of its answer
  into \<^verbatim>\<open>intentData\<close> are the parameter \<open>ai\<close>: \<open>Inl\<close> when the call or the parsing
  throws.
\<close>

definition extractIntent :: "(string \<Rightarrow> JsError + json) \<Rightarrow> nat \<Rightarrow> string \<Rightarrow> JsError + RawIntent" where
  "extractIntent ai now text =
     (case ai text of
        Inl e \<Rightarrow> Inl e
      | Inr intentData \<Rightarrow> constructIntent now text intentData)"

text \<open>Example responses of the AI collaborator.\<close>

definition sampleResponse :: json where
  "sampleResponse =
     JObj [(''action'', JStr ''send''), (''amount'', JStr ''fifty''), (''currency'', JStr ''EUR''),
           (''recipient'', JStr ''Alice''), (''confirmationRequired'', JStr ''false'')]"

definition sampleResponseNoConfirm :: json where
  "sampleResponseNoConfirm =
     JObj [(''action'', JStr ''check_balance''), (''amount'', JNum (Num 0)),
           (''confirmationRequired'', JBool False)]"

subsection \<open>Input sanitization (\<^verbatim>\<open>lib/api/validation\<close>)\<close>


subsection \<open>The demo intent service (\<^verbatim>\<open>lib/demo/mockData\<close>)\<close>





subsection \<open>The intent endpoint (\<^verbatim>\<open>pages/api/nlp.ts\<close>)\<close>
















subsection \<open>The voice hook (\<^verbatim>\<open>lib/hooks/useVoice.ts\<close>)\<close>

datatype VoiceProcessingState =
  Idle | Requesting | Listening | Processing | Confirming | Executing | Complete | Error

text \<open>The options of the hook; durations are in milliseconds.\<close>

record UseVoiceOptions =
  maxRecordingDuration :: nat
  minRecordingDuration :: nat
  autoRetry :: bool
  maxRetries :: nat

text \<open>The defaults: 10000 and 1000 milliseconds, no automatic retry, 3 retries.\<close>

definition defaultOptions :: UseVoiceOptions where
  "defaultOptions =
     \<lparr>maxRecordingDuration = 10000, minRecordingDuration = 1000, autoRetry = False,
      maxRetries = 3\<rparr>"

type_synonym Blob = "string list"

text \<open>
  The \<^verbatim>\<open>MediaRecorder\<close> of a recording together with what the closures made by that
  call of \<^verbatim>\<open>startRecording\<close> hold: \<open>capturedRecordingTime\<close> and \<open>capturedTranscript\<close>
  are the values of the state variables \<^verbatim>\<open>recordingTime\<close> and \<^verbatim>\<open>transcript\<close> in the
  render whose \<^verbatim>\<open>startRecording\<close> was called (the \<^verbatim>\<open>onstop\<close> handler and the
  \<^verbatim>\<open>processAudioBlob\<close> it calls read these constants, not the later state), and
  \<open>time\<close> is the local counter of the recording timer.
\<close>

record Recorder =
  rec_id :: nat
  recording :: bool
  capturedRecordingTime :: nat
  capturedTranscript :: "string option"
  time :: nat

datatype timeout = ToIdle | AutoStop nat | RetryProcess "string option"

datatype voice_call =
  GetUserMedia
| ProcessAudioBlob Blob
| OnSuccess string Intent
| OnError string

text \<open>
  The state variables of the hook, its refs (a boolean says whether the resource is held),
  the pending \<^verbatim>\<open>setTimeout\<close> callbacks with their delays, and the calls made so far.
\<close>

record Voice =
  state :: VoiceProcessingState
  transcript :: "string option"
  intent :: "Intent option"
  error :: "string option"
  recordingTime :: nat
  audioLevel :: rat
  hasPermission :: "bool option"
  commandHistory :: "VoiceCommand list"
  mediaRecorder :: "Recorder option"
  audioChunks :: Blob
  stream :: bool
  audioContext :: bool
  analyser :: bool
  animationFrame :: bool
  recordingTimer :: bool
  retryCount :: nat
  lastAudioBlob :: "Blob option"
  timeouts :: "(nat \<times> timeout) list"
  calls :: "voice_call list"

definition initialVoice :: Voice where
  "initialVoice =
     \<lparr>state = Idle, transcript = None, intent = None, error = None, recordingTime = 0,
      audioLevel = 0, hasPermission = None, commandHistory = [], mediaRecorder = None,
      audioChunks = [], stream = False, audioContext = False, analyser = False,
      animationFrame = False, recordingTimer = False, retryCount = 0, lastAudioBlob = None,
      timeouts = [], calls = []\<rparr>"

text \<open>\<^verbatim>\<open>cleanupResources\<close>\<close>

definition cleanupResources :: "Voice \<Rightarrow> Voice" where
  "cleanupResources v =
     v\<lparr>stream := False, audioContext := False, animationFrame := False,
       recordingTimer := False, mediaRecorder := None, analyser := False, audioChunks := [],
       audioLevel := 0\<rparr>"

text \<open>All audio resources are released.\<close>

definition released :: "Voice \<Rightarrow> bool" where
  "released v =
     (\<not> stream v \<and> \<not> audioContext v \<and> \<not> animationFrame v \<and> \<not> recordingTimer v
      \<and> mediaRecorder v = None \<and> \<not> analyser v \<and> audioChunks v = [])"

text \<open>
  The answers of the two endpoints to the \<^verbatim>\<open>fetch\<close> calls of \<^verbatim>\<open>processAudioBlob\<close>;
  a rejected \<^verbatim>\<open>fetch\<close> is \<open>Inl\<close> with the message of its error.
\<close>

record VoiceReply =
  vr_ok :: bool
  vr_error :: "string option"
  vr_success :: bool
  vr_transcript :: "string option"

record NlpReply =
  nr_ok :: bool
  nr_error :: "string option"
  nr_success :: bool
  nr_intent :: "Intent option"

text \<open>\<^verbatim>\<open>xs.join(sep)\<close>\<close>

fun joinWith :: "string \<Rightarrow> string list \<Rightarrow> string" where
  "joinWith sep [] = []"
| "joinWith sep [x] = x"
| "joinWith sep (x # y # ys) = x @ sep @ joinWith sep (y # ys)"

text \<open>
  The \<^verbatim>\<open>try\<close> block of \<^verbatim>\<open>processAudioBlob\<close> up to the extracted intent: \<open>Inl\<close> is the
  message of the error thrown, with the transcript when \<^verbatim>\<open>setTranscript\<close> was reached.
\<close>

definition pipeline ::
  "(string + VoiceReply) \<Rightarrow> (string + NlpReply) \<Rightarrow> (string \<times> string option) + (string \<times> Intent)" where
  "pipeline voiceReply nlpReply =
     (case voiceReply of
        Inl m \<Rightarrow> Inl (m, None)
      | Inr transcriptData \<Rightarrow>
          if \<not> vr_ok transcriptData then
            Inl (strOr (vr_error transcriptData) ''Transcription failed'', None)
          else if \<not> vr_success transcriptData \<or> strOr (vr_transcript transcriptData) [] = [] then
            Inl (''No speech detected in audio'', None)
          else
            let transcribedText = strOr (vr_transcript transcriptData) []
            in case nlpReply of
                 Inl m \<Rightarrow> Inl (m, Some transcribedText)
               | Inr nlpData \<Rightarrow>
                   if \<not> nr_ok nlpData then
                     Inl (strOr (nr_error nlpData) ''Intent extraction failed'',
                          Some transcribedText)
                   else if \<not> nr_success nlpData then
                     Inl (''Failed to extract payment intent'', Some transcribedText)
                   else
                     (case nr_intent nlpData of
                        None \<Rightarrow> Inl (''Failed to extract payment intent'', Some transcribedText)
                      | Some extractedIntent \<Rightarrow>
                          if \<not> isValid extractedIntent then
                            Inl (strOr (map_option (joinWith '', '')
                                          (validationErrors extractedIntent))
                                   ''Invalid command'',
                                 Some transcribedText)
                          else Inr (transcribedText, extractedIntent)))"

text \<open>
  \<^verbatim>\<open>processAudioBlob(audioBlob)\<close> as made by a render in which \<^verbatim>\<open>transcript\<close> was
  \<open>ct\<close>, run to its end with the given answers of the endpoints.
\<close>

definition processAudioBlob ::
  "UseVoiceOptions \<Rightarrow> string option \<Rightarrow> nat \<Rightarrow> (string + VoiceReply) \<Rightarrow> (string + NlpReply)
   \<Rightarrow> Blob \<Rightarrow> Voice \<Rightarrow> Voice" where
  "processAudioBlob opts ct now voiceReply nlpReply audioBlob v =
     (let v1 = v\<lparr>state := Processing, error := None,
                  calls := calls v @ [ProcessAudioBlob audioBlob]\<rparr>
      in case pipeline voiceReply nlpReply of
           Inr (transcribedText, extractedIntent) \<Rightarrow>
             v1\<lparr>transcript := Some transcribedText, intent := Some extractedIntent,
                state := Complete,
                commandHistory :=
                  appendHistory
                    \<lparr>vc_id = showNat now, vc_transcript = transcribedText,
                     vc_intent = Some extractedIntent, vc_timestamp = now, vc_success = True\<rparr>
                    (commandHistory v1),
                retryCount := 0,
                calls := calls v1 @ [OnSuccess transcribedText extractedIntent],
                timeouts := timeouts v1 @ [(2000, ToIdle)]\<rparr>
         | Inl (m, reached) \<Rightarrow>
             let errorMessage = strOr (Some m) ''Failed to process voice command'';
                 v2 = v1\<lparr>transcript := (case reached of Some t \<Rightarrow> Some t | None \<Rightarrow> transcript v1),
                         error := Some errorMessage, state := Error\<rparr>;
                 v3 = (if strOr ct [] \<noteq> [] then
                         v2\<lparr>commandHistory :=
                              appendHistory
                                \<lparr>vc_id = showNat now, vc_transcript = strOr ct [],
                                 vc_intent = None, vc_timestamp = now, vc_success = False\<rparr>
                                (commandHistory v2)\<rparr>
                       else v2);
                 v4 = v3\<lparr>calls := calls v3 @ [OnError errorMessage]\<rparr>
             in if autoRetry opts \<and> retryCount v4 < maxRetries opts then
                  v4\<lparr>retryCount := retryCount v4 + 1,
                     timeouts := timeouts v4 @ [(1000, RetryProcess ct)]\<rparr>
                else v4\<lparr>timeouts := timeouts v4 @ [(3000, ToIdle)]\<rparr>)"

text \<open>The outcome of \<^verbatim>\<open>getUserMedia\<close>: a stream, or a rejection with the name of its error.\<close>

datatype media_outcome = Granted | Rejected string

text \<open>
  \<^verbatim>\<open>startRecording()\<close>, called on the render whose state is \<open>v\<close>. The recorder it makes
  captures \<open>recordingTime v\<close> and \<open>transcript v\<close>.
\<close>

definition startRecording :: "UseVoiceOptions \<Rightarrow> media_outcome \<Rightarrow> Voice \<Rightarrow> Voice" where
  "startRecording opts media v =
     (if state v \<noteq> Idle \<and> state v \<noteq> Error then v
      else
        let v1 = v\<lparr>state := Requesting, error := None, transcript := None, intent := None,
                    recordingTime := 0, calls := calls v @ [GetUserMedia]\<rparr>
        in case media of
             Granted \<Rightarrow>
               v1\<lparr>stream := True, hasPermission := Some True, audioContext := True,
                  analyser := True, animationFrame := True,
                  mediaRecorder :=
                    Some \<lparr>rec_id = length (calls v1), recording = True,
                          capturedRecordingTime = recordingTime v,
                          capturedTranscript = transcript v, time = 0\<rparr>,
                  audioChunks := [], state := Listening, recordingTimer := True,
                  timeouts := timeouts v1
                              @ [(maxRecordingDuration opts, AutoStop (length (calls v1)))]\<rparr>
           | Rejected name \<Rightarrow>
               let errorMessage =
                     (if name = ''NotAllowedError'' \<or> name = ''PermissionDeniedError'' then
                        ''Microphone access denied. Please allow microphone access.''
                      else if name = ''NotFoundError'' \<or> name = ''DevicesNotFoundError'' then
                        ''No microphone found. Please connect a microphone.''
                      else if name = ''NotReadableError'' \<or> name = ''TrackStartError'' then
                        ''Microphone is already in use by another application.''
                      else ''Failed to start recording'');
                   v2 = (if name = ''NotAllowedError'' \<or> name = ''PermissionDeniedError''
                         then v1\<lparr>hasPermission := Some False\<rparr> else v1);
                   v3 = v2\<lparr>error := Some errorMessage, state := Error,
                           calls := calls v2 @ [OnError errorMessage]\<rparr>
               in (cleanupResources v3)\<lparr>timeouts := timeouts v3 @ [(3000, ToIdle)]\<rparr>)"

text \<open>The tick of the recording timer: \<^verbatim>\<open>time++; setRecordingTime(time)\<close>.\<close>

definition timerTick :: "Voice \<Rightarrow> Voice" where
  "timerTick v =
     (case mediaRecorder v of
        Some r \<Rightarrow>
          if recordingTimer v
          then v\<lparr>mediaRecorder := Some (r\<lparr>time := time r + 1\<rparr>), recordingTime := time r + 1\<rparr>
          else v
      | None \<Rightarrow> v)"

text \<open>\<^verbatim>\<open>mediaRecorder.ondataavailable\<close> for a chunk of audio data.\<close>

definition dataAvailable :: "string \<Rightarrow> Voice \<Rightarrow> Voice" where
  "dataAvailable chunk v =
     (if 0 < length chunk then v\<lparr>audioChunks := audioChunks v @ [chunk]\<rparr> else v)"

text \<open>\<^verbatim>\<open>mediaRecorder.onstop\<close> of the recorder \<open>r\<close>.\<close>

definition onstop ::
  "UseVoiceOptions \<Rightarrow> nat \<Rightarrow> (string + VoiceReply) \<Rightarrow> (string + NlpReply) \<Rightarrow> Recorder
   \<Rightarrow> Voice \<Rightarrow> Voice" where
  "onstop opts now voiceReply nlpReply r v =
     (let audioBlob = audioChunks v;
          v1 = v\<lparr>lastAudioBlob := Some audioBlob\<rparr>
      in if capturedRecordingTime r * 1000 < minRecordingDuration opts then
           let v2 = cleanupResources
                      (v1\<lparr>error := Some ''Recording is too short. Please speak longer.'',
                          state := Error\<rparr>)
           in v2\<lparr>timeouts := timeouts v2 @ [(3000, ToIdle)]\<rparr>
         else
           cleanupResources
             (processAudioBlob opts (capturedTranscript r) now voiceReply nlpReply audioBlob v1))"

text \<open>
  \<^verbatim>\<open>stopRecording()\<close>, followed by the \<^verbatim>\<open>stop\<close> event of the recorder it has
  stopped.
\<close>

definition stopRecording ::
  "UseVoiceOptions \<Rightarrow> nat \<Rightarrow> (string + VoiceReply) \<Rightarrow> (string + NlpReply) \<Rightarrow> Voice \<Rightarrow> Voice" where
  "stopRecording opts now voiceReply nlpReply v =
     (let v1 = v\<lparr>recordingTimer := False, animationFrame := False, audioLevel := 0\<rparr>
      in case mediaRecorder v of
           Some r \<Rightarrow>
             if recording r
             then onstop opts now voiceReply nlpReply r
                    (v1\<lparr>mediaRecorder := Some (r\<lparr>recording := False\<rparr>)\<rparr>)
             else v1
         | None \<Rightarrow> v1)"

text \<open>\<^verbatim>\<open>cancelRecording()\<close>\<close>

definition cancelRecording :: "Voice \<Rightarrow> Voice" where
  "cancelRecording v =
     cleanupResources
       (v\<lparr>state := Idle, error := None, transcript := None, intent := None,
          recordingTime := 0\<rparr>)"

text \<open>\<^verbatim>\<open>clearError()\<close>\<close>

definition clearError :: "Voice \<Rightarrow> Voice" where
  "clearError v =
     (if state v = Error then v\<lparr>error := None, state := Idle\<rparr> else v\<lparr>error := None\<rparr>)"

text \<open>The hook's \<^verbatim>\<open>clearHistory()\<close>.\<close>

definition clearCommandHistory :: "Voice \<Rightarrow> Voice" where
  "clearCommandHistory v = v\<lparr>commandHistory := clearHistory (commandHistory v)\<rparr>"

text \<open>
  A pending timeout fires: the return to idle after a display delay, the automatic stop at
  the maximal duration (if that recorder is still the current one and recording), or the
  automatic retry on the last audio sample.
\<close>

definition fireTimeout ::
  "UseVoiceOptions \<Rightarrow> nat \<Rightarrow> (string + VoiceReply) \<Rightarrow> (string + NlpReply) \<Rightarrow> timeout
   \<Rightarrow> Voice \<Rightarrow> Voice" where
  "fireTimeout opts now voiceReply nlpReply t v =
     (let v1 = v\<lparr>timeouts := filter (\<lambda>p. snd p \<noteq> t) (timeouts v)\<rparr>
      in case t of
           ToIdle \<Rightarrow> v1\<lparr>state := Idle\<rparr>
         | AutoStop i \<Rightarrow>
             (case mediaRecorder v1 of
                Some r \<Rightarrow>
                  if recording r \<and> rec_id r = i
                  then stopRecording opts now voiceReply nlpReply v1 else v1
              | None \<Rightarrow> v1)
         | RetryProcess ct \<Rightarrow>
             (case lastAudioBlob v1 of
                Some b \<Rightarrow> processAudioBlob opts ct now voiceReply nlpReply b v1
              | None \<Rightarrow> v1))"

text \<open>
  \<^verbatim>\<open>retry()\<close>, called on the render whose state is \<open>v\<close>: the last audio sample is
  processed again, or a recording is started when there is none.
\<close>

definition retryLast ::
  "UseVoiceOptions \<Rightarrow> nat \<Rightarrow> (string + VoiceReply) \<Rightarrow> (string + NlpReply) \<Rightarrow> media_outcome
   \<Rightarrow> Voice \<Rightarrow> Voice" where
  "retryLast opts now voiceReply nlpReply media v =
     (case lastAudioBlob v of
        Some b \<Rightarrow>
          processAudioBlob opts (transcript v) now voiceReply nlpReply b (v\<lparr>retryCount := 0\<rparr>)
      | None \<Rightarrow> startRecording opts media v)"

text \<open>\<open>n\<close> ticks of the recording timer.\<close>

fun ticks :: "nat \<Rightarrow> Voice \<Rightarrow> Voice" where
  "ticks 0 v = v"
| "ticks (Suc n) v = ticks n (timerTick v)"

text \<open>Endpoint answers for a successful command.\<close>

definition goodVoiceReply :: "string + VoiceReply" where
  "goodVoiceReply =
     Inr \<lparr>vr_ok = True, vr_error = None, vr_success = True,
          vr_transcript = Some ''Send 50 USDC to 0x1234567890123456789012345678901234567890''\<rparr>"

definition goodNlpReply :: "string + NlpReply" where
  "goodNlpReply =
     Inr \<lparr>nr_ok = True, nr_error = None, nr_success = True,
          nr_intent = Some (sendIntent 50)\<rparr>"

text \<open>
  Two recordings in a row with the default options. The first lasts five seconds; after the
  display delay the second is started and stopped at once.
\<close>

definition firstRecording :: Voice where
  "firstRecording =
     fireTimeout defaultOptions 6000 goodVoiceReply goodNlpReply ToIdle
       (stopRecording defaultOptions 5000 goodVoiceReply goodNlpReply
          (ticks 5 (dataAvailable ''audio-1'' (startRecording defaultOptions Granted initialVoice))))"

definition secondStarted :: Voice where
  "secondStarted = dataAvailable ''audio-2'' (startRecording defaultOptions Granted firstRecording)"

definition secondRecording :: Voice where
  "secondRecording = stopRecording defaultOptions 9000 goodVoiceReply goodNlpReply secondStarted"

section \<open>Properties\<close>

subsection \<open>Command history\<close>

lemma appendAll_take: "take 10 (appendAll cs h) = take 10 (rev cs @ h)"
proof (induction cs arbitrary: h)
  case Nil
  then show ?case by simp
next
  case (Cons c cs)
  have "take 10 (rev cs @ take 10 (c # h)) = take 10 (rev cs @ c # h)"
    by (simp add: take_Cons')
  then show ?case using Cons by (simp add: appendHistory_def)
qed

lemma appendAll_len: "length h \<le> 10 \<Longrightarrow> length (appendAll cs h) \<le> 10"
  by (induction cs arbitrary: h) (simp_all add: appendHistory_def)

lemma appendAll_eq: "length h \<le> 10 \<Longrightarrow> appendAll cs h = take 10 (rev cs @ h)"
  using appendAll_take[of cs h] appendAll_len[of h cs] by simp

subsection \<open>The fallback extractor\<close>

text \<open>
  C5. The fallback extractor maps "Send 50 USDC to 0x1234567890123456789012345678901234567890"
  to an intent with action send, amount 50, that address as recipient, and
  confirmationRequired true.
\<close>

theorem fallback_send_example:
  "action (extractIntentFallback now ''Send 50 USDC to 0x1234567890123456789012345678901234567890'') = ''send''
   \<and> amount (extractIntentFallback now ''Send 50 USDC to 0x1234567890123456789012345678901234567890'') = Num 50
   \<and> recipient (extractIntentFallback now ''Send 50 USDC to 0x1234567890123456789012345678901234567890'')
       = Some ''0x1234567890123456789012345678901234567890''
   \<and> confirmationRequired (extractIntentFallback now ''Send 50 USDC to 0x1234567890123456789012345678901234567890'')"
  by code_simp

text \<open>
  C6. For every input text, the fallback intent has confirmationRequired false exactly when
  its action is check_balance or view_history; every send, pay_bill, split or cancel
  fallback intent has confirmationRequired true; and "What's my balance?" gives action
  check_balance, amount 0, confirmationRequired false.
\<close>

theorem fallback_confirmation_flag:
  "(confirmationRequired (extractIntentFallback now text) = False
      \<longleftrightarrow> action (extractIntentFallback now text) \<in> {''check_balance'', ''view_history''})
   \<and> (action (extractIntentFallback now text) \<in> {''send'', ''pay_bill'', ''split'', ''cancel''}
      \<longrightarrow> confirmationRequired (extractIntentFallback now text))
   \<and> action (extractIntentFallback now ''What's my balance?'') = ''check_balance''
   \<and> amount (extractIntentFallback now ''What's my balance?'') = Num 0
   \<and> confirmationRequired (extractIntentFallback now ''What's my balance?'') = False"
proof -
  have a: "confirmationRequired (extractIntentFallback now text) = False
      \<longleftrightarrow> action (extractIntentFallback now text) \<in> {''check_balance'', ''view_history''}"
    by (simp add: extractIntentFallback_def Let_def)
  have b: "action (extractIntentFallback now ''What's my balance?'') = ''check_balance''
   \<and> amount (extractIntentFallback now ''What's my balance?'') = Num 0
   \<and> confirmationRequired (extractIntentFallback now ''What's my balance?'') = False"
    by code_simp
  show ?thesis using a b by auto
qed

theorem fallback_confirmation_flag_witness:
  "action (extractIntentFallback 0 ''cancel my last payment'') = ''cancel''
   \<and> confirmationRequired (extractIntentFallback 0 ''cancel my last payment'')
   \<and> action (extractIntentFallback 0 ''show my history'') = ''view_history''
   \<and> \<not> confirmationRequired (extractIntentFallback 0 ''show my history'')"
proof -
  have a: "action (extractIntentFallback 0 ''cancel my last payment'') = ''cancel''" by code_simp
  have b: "action (extractIntentFallback 0 ''show my history'') = ''view_history''" by code_simp
  show ?thesis
    using a b fallback_confirmation_flag[of 0 "''cancel my last payment''"]
      fallback_confirmation_flag[of 0 "''show my history''"] by simp
qed

subsection \<open>Intent validation\<close>







subsection \<open>The balance check of the send path\<close>









subsection \<open>Retry with backoff\<close>









subsection \<open>The intent built from an AI response\<close>

text \<open>
  C9. On the AI path, for every parsed response from which an intent is built, the intent has
  confirmationRequired true unless the response's confirmationRequired field is exactly the
  boolean false (an omitted or malformed value requires confirmation), its currency is
  "USDC" whatever the response says, and an amount that does not parse becomes 0.
\<close>

theorem ai_intent_defaults:
  "ai text = Inr intentData \<and> extractIntent ai now text = Inr i \<longrightarrow>
     (confirmationRequired i \<longleftrightarrow> field intentData ''confirmationRequired'' \<noteq> Some (JBool False))
     \<and> currency i = ''USDC''
     \<and> (parseFloatField (field intentData ''amount'') = NaN \<longrightarrow> amount i = Num 0)
     \<and> amount i \<noteq> NaN"
  by (auto simp add: extractIntent_def constructIntent_def Let_def num_truthy_def
      split: if_splits)

theorem ai_intent_defaults_witness:
  "(\<exists>i. extractIntent (\<lambda>t. Inr sampleResponse) 0 ''pay Alice'' = Inr i
        \<and> field sampleResponse ''confirmationRequired'' = Some (JStr ''false'')
        \<and> confirmationRequired i
        \<and> field sampleResponse ''currency'' = Some (JStr ''EUR'')
        \<and> currency i = ''USDC''
        \<and> parseFloatField (field sampleResponse ''amount'') = NaN
        \<and> amount i = Num 0)
   \<and> (\<exists>i. extractIntent (\<lambda>t. Inr sampleResponseNoConfirm) 0 ''balance'' = Inr i
        \<and> \<not> confirmationRequired i)
   \<and> (\<exists>i. extractIntent (\<lambda>t. Inr (JObj [])) 0 ''hello'' = Inr i
        \<and> confirmationRequired i \<and> amount i = Num 0 \<and> currency i = ''USDC'')"
proof -
  obtain i where i: "extractIntent (\<lambda>t. Inr sampleResponse) 0 ''pay Alice'' = Inr i"
    by (simp add: extractIntent_def constructIntent_def sampleResponse_def)
  obtain j where j: "extractIntent (\<lambda>t. Inr sampleResponseNoConfirm) 0 ''balance'' = Inr j"
    by (simp add: extractIntent_def constructIntent_def sampleResponseNoConfirm_def)
  obtain k where k: "extractIntent (\<lambda>t. Inr (JObj [])) 0 ''hello'' = Inr k"
    by (simp add: extractIntent_def constructIntent_def)
  have a: "parseFloatField (field sampleResponse ''amount'') = NaN"
    unfolding sampleResponse_def by code_simp
  have b: "field sampleResponse ''confirmationRequired'' = Some (JStr ''false'')"
    "field sampleResponse ''currency'' = Some (JStr ''EUR'')"
    by (simp_all add: sampleResponse_def)
  have c: "field sampleResponseNoConfirm ''confirmationRequired'' = Some (JBool False)"
    by (simp add: sampleResponseNoConfirm_def)
  have d: "field (JObj []) ''confirmationRequired'' = None"
    "parseFloatField (field (JObj []) ''amount'') = NaN"
    by (simp_all add: parseFloatField_def)
  show ?thesis
    using i j k a b c d
      ai_intent_defaults[of "\<lambda>t. Inr sampleResponse" "''pay Alice''" sampleResponse 0 i]
      ai_intent_defaults[of "\<lambda>t. Inr sampleResponseNoConfirm" "''balance''"
        sampleResponseNoConfirm 0 j]
      ai_intent_defaults[of "\<lambda>t. Inr (JObj [])" "''hello''" "JObj []" 0 k]
    by simp
qed

subsection \<open>The intent endpoint\<close>




subsection \<open>The voice hook\<close>

lemma timerTick_running:
  "mediaRecorder v = Some r \<Longrightarrow> recordingTimer v \<Longrightarrow>
   timerTick v = v\<lparr>mediaRecorder := Some (r\<lparr>time := time r + 1\<rparr>), recordingTime := time r + 1\<rparr>"
  by (simp add: timerTick_def)

lemma ticks_running:
  "mediaRecorder v = Some r \<Longrightarrow> recordingTimer v \<Longrightarrow>
   ticks n v = v\<lparr>mediaRecorder := Some (r\<lparr>time := time r + n\<rparr>),
                 recordingTime := (if n = 0 then recordingTime v else time r + n)\<rparr>"
proof (induction n arbitrary: v r)
  case 0
  then show ?case by simp
next
  case (Suc n)
  show ?case
    using Suc.prems Suc.IH[of "timerTick v" "r\<lparr>time := time r + 1\<rparr>"]
    by (simp add: timerTick_running)
qed

lemma firstRecording_eq:
  "firstRecording =
     \<lparr>state = Idle, transcript = None, intent = None,
      error = Some ''Recording is too short. Please speak longer.'',
      recordingTime = 5, audioLevel = 0, hasPermission = Some True,
      commandHistory = [], mediaRecorder = None, audioChunks = [],
      stream = False, audioContext = False, analyser = False,
      animationFrame = False, recordingTimer = False, retryCount = 0,
      lastAudioBlob = Some [''audio-1''], timeouts = [(10000, AutoStop 1)],
      calls = [GetUserMedia]\<rparr>"
  by (simp add: firstRecording_def fireTimeout_def stopRecording_def onstop_def
      startRecording_def dataAvailable_def ticks_running cleanupResources_def initialVoice_def
      defaultOptions_def Let_def)

lemma secondStarted_eq:
  "secondStarted =
     \<lparr>state = Listening, transcript = None, intent = None, error = None,
      recordingTime = 0, audioLevel = 0, hasPermission = Some True,
      commandHistory = [],
      mediaRecorder =
        Some \<lparr>rec_id = 2, recording = True, capturedRecordingTime = 5,
              capturedTranscript = None, time = 0\<rparr>,
      audioChunks = [''audio-2''], stream = True, audioContext = True,
      analyser = True, animationFrame = True, recordingTimer = True,
      retryCount = 0, lastAudioBlob = Some [''audio-1''],
      timeouts = [(10000, AutoStop 1), (10000, AutoStop 2)],
      calls = [GetUserMedia, GetUserMedia]\<rparr>"
  by (simp add: secondStarted_def firstRecording_eq startRecording_def dataAvailable_def
      defaultOptions_def Let_def)

lemma pipeline_good:
  "pipeline goodVoiceReply goodNlpReply =
     Inr (''Send 50 USDC to 0x1234567890123456789012345678901234567890'', sendIntent 50)"
  by (simp add: pipeline_def goodVoiceReply_def goodNlpReply_def strOr_def sendIntent_def)

lemma processAudioBlob_history:
  "commandHistory (processAudioBlob opts ct now vr nr b v) =
     (case pipeline vr nr of
        Inr (t, i) \<Rightarrow>
          appendHistory
            \<lparr>vc_id = showNat now, vc_transcript = t, vc_intent = Some i, vc_timestamp = now,
             vc_success = True\<rparr> (commandHistory v)
      | Inl (m, reached) \<Rightarrow>
          if strOr ct [] \<noteq> [] then
            appendHistory
              \<lparr>vc_id = showNat now, vc_transcript = strOr ct [], vc_intent = None,
               vc_timestamp = now, vc_success = False\<rparr> (commandHistory v)
          else commandHistory v)"
proof (cases "pipeline vr nr")
  case (Inr p)
  then show ?thesis
    by (cases p) (simp add: processAudioBlob_def Let_def)
next
  case (Inl p)
  obtain m reached where p: "p = (m, reached)" by (cases p)
  show ?thesis
  proof (cases "strOr ct [] \<noteq> []")
    case True
    then show ?thesis using Inl p by (simp add: processAudioBlob_def Let_def)
  next
    case False
    then show ?thesis using Inl p by (simp add: processAudioBlob_def Let_def)
  qed
qed

lemma processAudioBlob_bound:
  "length (commandHistory v) \<le> 10 \<Longrightarrow>
   length (commandHistory (processAudioBlob opts ct now vr nr b v)) \<le> 10"
  by (simp add: processAudioBlob_history appendHistory_def split: sum.splits prod.splits)

lemma onstop_too_short:
  assumes "capturedRecordingTime r * 1000 < minRecordingDuration opts"
  shows "calls (onstop opts now vr nr r v) = calls v"
    and "error (onstop opts now vr nr r v) = Some ''Recording is too short. Please speak longer.''"
    and "state (onstop opts now vr nr r v) = Error"
    and "released (onstop opts now vr nr r v)"
    and "(3000, ToIdle) \<in> set (timeouts (onstop opts now vr nr r v))"
  using assms by (simp_all add: onstop_def Let_def cleanupResources_def released_def)

lemma onstop_long_enough:
  assumes "\<not> capturedRecordingTime r * 1000 < minRecordingDuration opts"
  shows "ProcessAudioBlob (audioChunks v) \<in> set (calls (onstop opts now vr nr r v))"
proof (cases "pipeline vr nr")
  case (Inr p)
  then show ?thesis using assms
    by (cases p) (simp add: onstop_def processAudioBlob_def Let_def cleanupResources_def)
next
  case (Inl p)
  obtain m reached where p: "p = (m, reached)" by (cases p)
  show ?thesis using assms Inl p
    by (simp add: onstop_def processAudioBlob_def Let_def cleanupResources_def)
qed

text \<open>
  C7. Reentry guard: when the state is neither idle nor error (listening or processing, for
  example), \<open>startRecording\<close> returns the hook unchanged: the microphone is not requested, no
  recorder is made, no state variable changes. From idle or error it does request the
  microphone.
\<close>

theorem startRecording_reentry_guard:
  "(state v \<noteq> Idle \<and> state v \<noteq> Error \<longrightarrow> startRecording opts media v = v)
   \<and> (state v = Idle \<or> state v = Error \<longrightarrow>
        take (Suc (length (calls v))) (calls (startRecording opts media v))
          = calls v @ [GetUserMedia])"
  by (cases media) (auto simp add: startRecording_def Let_def cleanupResources_def)

theorem startRecording_reentry_guard_witness:
  "state secondStarted = Listening
   \<and> startRecording defaultOptions Granted secondStarted = secondStarted
   \<and> state (initialVoice\<lparr>state := Processing\<rparr>) = Processing
   \<and> startRecording defaultOptions Granted (initialVoice\<lparr>state := Processing\<rparr>)
       = initialVoice\<lparr>state := Processing\<rparr>
   \<and> state initialVoice = Idle
   \<and> take 1 (calls (startRecording defaultOptions Granted initialVoice)) = [GetUserMedia]"
proof -
  have a: "state secondStarted = Listening" by (simp add: secondStarted_eq)
  have b: "state initialVoice = Idle" "calls initialVoice = []" by (simp_all add: initialVoice_def)
  show ?thesis
    using a b startRecording_reentry_guard[of secondStarted defaultOptions Granted]
      startRecording_reentry_guard[of "initialVoice\<lparr>state := Processing\<rparr>" defaultOptions Granted]
      startRecording_reentry_guard[of initialVoice defaultOptions Granted]
    by simp
qed

text \<open>
  C2 fails on the code. The \<open>onstop\<close> handler compares the recording time that its closure
  captured when the recording was started, not the elapsed time of the recording. After a
  first recording of five seconds (itself reported as too short, the captured value being
  0), a second recording stopped at once has elapsed time 0, below the minimum of 1000
  milliseconds, and yet \<open>processAudioBlob\<close> is invoked and the command completes.
\<close>

theorem short_recording_is_processed:
  "error firstRecording = Some ''Recording is too short. Please speak longer.''
   \<and> recordingTime firstRecording = 5
   \<and> state firstRecording = Idle
   \<and> state secondStarted = Listening
   \<and> recordingTime secondStarted = 0
   \<and> map_option time (mediaRecorder secondStarted) = Some 0
   \<and> map_option capturedRecordingTime (mediaRecorder secondStarted) = Some 5
   \<and> recordingTime secondStarted * 1000 < minRecordingDuration defaultOptions
   \<and> calls secondRecording =
        [GetUserMedia, GetUserMedia, ProcessAudioBlob [''audio-2''],
         OnSuccess ''Send 50 USDC to 0x1234567890123456789012345678901234567890'' (sendIntent 50)]
   \<and> state secondRecording = Complete
   \<and> error secondRecording = None"
proof -
  have a: "calls secondRecording =
        [GetUserMedia, GetUserMedia, ProcessAudioBlob [''audio-2''],
         OnSuccess ''Send 50 USDC to 0x1234567890123456789012345678901234567890'' (sendIntent 50)]
   \<and> state secondRecording = Complete
   \<and> error secondRecording = None"
    by (simp add: secondRecording_def secondStarted_eq stopRecording_def onstop_def
        processAudioBlob_def pipeline_good cleanupResources_def defaultOptions_def Let_def)
  show ?thesis
    using a by (simp add: firstRecording_eq secondStarted_eq defaultOptions_def)
qed

text \<open>
  C8. The command history never holds more than 10 entries and is ordered newest first:
  appending the commands \<open>cs\<close> (successful or failed) to the empty history leaves the 10
  most recent ones, newest first, so 15 appends leave exactly the 10 newest; an append to a
  history of at most 10 entries gives at most 10 entries, and so does \<open>processAudioBlob\<close>,
  on its success path and on its failure path; \<open>clearHistory\<close> gives the empty history,
  also when applied twice.
\<close>

theorem command_history_bounded_newest_first:
  "length (appendAll cs []) \<le> 10
   \<and> appendAll cs [] = take 10 (rev cs)
   \<and> (length cs = 15 \<longrightarrow>
        appendAll cs [] = rev (drop 5 cs) \<and> length (appendAll cs []) = 10)
   \<and> (length h \<le> 10 \<longrightarrow>
        length (appendHistory c h) \<le> 10 \<and> appendAll cs h = take 10 (rev cs @ h))
   \<and> (length (commandHistory v) \<le> 10 \<longrightarrow>
        length (commandHistory (processAudioBlob opts ct now vr nr b v)) \<le> 10)
   \<and> clearHistory h = [] \<and> clearHistory (clearHistory h) = []
   \<and> commandHistory (clearCommandHistory v) = []
   \<and> clearCommandHistory (clearCommandHistory v) = clearCommandHistory v"
proof -
  have e: "appendAll cs [] = take 10 (rev cs)"
    using appendAll_eq[of "[]" cs] by simp
  have f: "length cs = 15 \<Longrightarrow> take 10 (rev cs) = rev (drop 5 cs)"
    by (simp add: take_rev)
  have g: "commandHistory (clearCommandHistory v) = []
    \<and> clearCommandHistory (clearCommandHistory v) = clearCommandHistory v"
    by (simp add: clearCommandHistory_def clearHistory_def)
  show ?thesis
    using e f g appendAll_eq[of h cs] processAudioBlob_bound[of v opts ct now vr nr b]
    by (simp add: appendHistory_def clearHistory_def)
qed

theorem command_history_witness:
  "length (map sampleCommand [1,2,3,4,5,6,7,8,9,10,11,12,13,14,15]) = 15
   \<and> appendAll (map sampleCommand [1,2,3,4,5,6,7,8,9,10,11,12,13,14,15]) []
       = map sampleCommand [15,14,13,12,11,10,9,8,7,6]
   \<and> length (appendAll (map sampleCommand [1,2,3,4,5,6,7,8,9,10,11,12,13,14,15]) []) = 10
   \<and> length (map sampleCommand [1,2,3]) \<le> 10
   \<and> appendAll (map sampleCommand [4,5,6,7,8,9,10,11,12,13,14,15]) (map sampleCommand [1,2,3])
       = map sampleCommand [15,14,13,12,11,10,9,8,7,6]
   \<and> length (commandHistory secondStarted) \<le> 10
   \<and> length (commandHistory
         (processAudioBlob defaultOptions None 9000 goodVoiceReply goodNlpReply [''audio-2'']
            secondStarted)) \<le> 10"
proof -
  have a: "commandHistory secondStarted = []" by (simp add: secondStarted_eq)
  show ?thesis
    using a
      command_history_bounded_newest_first
        [of "map sampleCommand [1,2,3,4,5,6,7,8,9,10,11,12,13,14,15]" "[]" "sampleCommand 0"
          secondStarted defaultOptions None 9000 goodVoiceReply goodNlpReply "[''audio-2'']"]
      command_history_bounded_newest_first
        [of "map sampleCommand [4,5,6,7,8,9,10,11,12,13,14,15]" "map sampleCommand [1,2,3]"
          "sampleCommand 0"]
    by simp
qed

end
